theory Spec2Isabelle
  imports Complex_Main "HOL-Library.Log_Nat"
begin

text \<open>
  A model of \<^verbatim>\<open>analyze_pylint.py\<close>: \<^verbatim>\<open>parse_pylint_output\<close> reads the output of
  pylint into a dictionary from module names to lists of tuples,
  \<^verbatim>\<open>generate_statistics\<close> counts the tuples by category and builds the text of the
  statistics, \<^verbatim>\<open>write_to_file\<close> writes the report. Strings are sequences of code
  points, dictionaries are association lists in insertion order, every exception the
  functions can raise is a value of \<open>py_error\<close>, and floats are the rationals that
  IEEE 754 doubles denote, with every operation rounded to the nearest double.
\<close>

section \<open>Python strings\<close>

text \<open>
  A Python \<^verbatim>\<open>str\<close> is a sequence of Unicode code points; a code point is a natural
  number here. \<open>lit\<close> turns an ASCII literal of the source into such a sequence.
\<close>

type_synonym str = "nat list"

definition lit :: "string \<Rightarrow> str" where
  "lit s = map of_char s"

definition LF :: nat where "LF = 10"
definition colon :: nat where "colon = 58"

text \<open>
  The characters \<^verbatim>\<open>str.strip()\<close> removes when called with no argument: the code
  points CPython classifies as whitespace.
\<close>

definition isspace :: "nat \<Rightarrow> bool" where
  "isspace c \<longleftrightarrow>
     (9 \<le> c \<and> c \<le> 13) \<or> (28 \<le> c \<and> c \<le> 32) \<or> c = 133 \<or> c = 160 \<or> c = 5760 \<or>
     (8192 \<le> c \<and> c \<le> 8202) \<or> c = 8232 \<or> c = 8233 \<or> c = 8239 \<or> c = 8287 \<or> c = 12288"

definition lstrip :: "str \<Rightarrow> str" where
  "lstrip s = dropWhile isspace s"

definition rstrip :: "str \<Rightarrow> str" where
  "rstrip s = rev (dropWhile isspace (rev s))"

definition strip :: "str \<Rightarrow> str" where
  "strip s = rstrip (lstrip s)"

text \<open>\<^verbatim>\<open>s.split(sep)\<close> for a one-character separator: never an empty list.\<close>

fun split :: "nat \<Rightarrow> str \<Rightarrow> str list" where
  "split sep [] = [[]]"
| "split sep (c # cs) =
     (if c = sep then [] # split sep cs
      else (case split sep cs of [] \<Rightarrow> [[c]] | p # ps \<Rightarrow> (c # p) # ps))"

definition startswith :: "str \<Rightarrow> str \<Rightarrow> bool" where
  "startswith s p \<longleftrightarrow> take (length p) s = p"

datatype py_error = IndexError | KeyError | ZeroDivisionError

text \<open>\<^verbatim>\<open>xs[i]\<close> for a non-negative index: out of range raises IndexError.\<close>

definition getitem :: "'a list \<Rightarrow> nat \<Rightarrow> py_error + 'a" where
  "getitem xs i = (if i < length xs then Inr (xs ! i) else Inl IndexError)"

section \<open>Insertion-ordered dictionaries\<close>

text \<open>
  A Python \<^verbatim>\<open>dict\<close> iterates in insertion order, and assigning to a key that is
  present keeps the key's position. It is an association list with distinct keys.
\<close>

type_synonym ('k, 'v) dict = "('k \<times> 'v) list"

fun dict_set :: "'k \<Rightarrow> 'v \<Rightarrow> ('k, 'v) dict \<Rightarrow> ('k, 'v) dict" where
  "dict_set k v [] = [(k, v)]"
| "dict_set k v ((k', v') # d) =
     (if k' = k then (k', v) # d else (k', v') # dict_set k v d)"

definition dict_get :: "('k, 'v) dict \<Rightarrow> 'k \<Rightarrow> py_error + 'v" where
  "dict_get d k = (case map_of d k of None \<Rightarrow> Inl KeyError | Some v \<Rightarrow> Inr v)"

definition dict_contains :: "('k, 'v) dict \<Rightarrow> 'k \<Rightarrow> bool" where
  "dict_contains d k \<longleftrightarrow> k \<in> set (map fst d)"

definition dict_values :: "('k, 'v) dict \<Rightarrow> 'v list" where
  "dict_values d = map snd d"

section \<open>parse_pylint_output\<close>




text \<open>A diagnostic is the tuple \<^verbatim>\<open>(file_info, error_type, full_error)\<close>.\<close>

type_synonym diagnostic = "str \<times> str \<times> str"

type_synonym analysis = "(str, diagnostic list) dict"

definition marker :: str where
  "marker = lit ''************* Module ''"

text \<open>
  The body of the \<^verbatim>\<open>try\<close> block up to the tuple: \<^verbatim>\<open>parts[3]\<close> and
  \<^verbatim>\<open>parts[3].strip()[0]\<close> raise IndexError.
\<close>

definition make_diagnostic :: "str \<Rightarrow> py_error + diagnostic" where
  "make_diagnostic line =
     (let parts = split colon line in
      case getitem parts 0 of Inl e \<Rightarrow> Inl e | Inr p0 \<Rightarrow>
     (let file_info = strip p0 in
      case getitem parts 3 of Inl e \<Rightarrow> Inl e | Inr p3 \<Rightarrow>
     (case getitem (strip p3) 0 of Inl e \<Rightarrow> Inl e | Inr c \<Rightarrow>
     (let error_type = [c]; full_error = line in
      Inr (file_info, error_type, full_error)))))"

text \<open>
  The whole \<^verbatim>\<open>try\<close> block: the tuple is appended to
  \<^verbatim>\<open>analysis[current_module]\<close>, a missing key raises KeyError.
\<close>

definition try_append :: "analysis \<Rightarrow> str \<Rightarrow> str \<Rightarrow> py_error + analysis" where
  "try_append analysis current_module line =
     (case make_diagnostic line of Inl e \<Rightarrow> Inl e | Inr d \<Rightarrow>
     (case dict_get analysis current_module of Inl e \<Rightarrow> Inl e | Inr ds \<Rightarrow>
      Inr (dict_set current_module (ds @ [d]) analysis)))"

text \<open>
  One iteration of the loop over the lines, on the state
  \<^verbatim>\<open>(analysis, current_module)\<close>. \<^verbatim>\<open>current_module\<close> is true when it is
  neither None nor the empty string. \<^verbatim>\<open>except Exception: continue\<close> leaves the
  state as it was.
\<close>

definition parse_line :: "str \<Rightarrow> analysis \<times> str option \<Rightarrow> analysis \<times> str option" where
  "parse_line raw st =
     (let analysis = fst st; current_module = snd st; line = strip raw in
      if startswith line marker then
        (let current_module = drop (length marker) line in
         (dict_set current_module [] analysis, Some current_module))
      else
        (case current_module of
           None \<Rightarrow> (analysis, current_module)
         | Some m \<Rightarrow>
             if m \<noteq> [] \<and> line \<noteq> [] then
               (case try_append analysis m line of
                  Inl e \<Rightarrow> (analysis, current_module)
                | Inr analysis' \<Rightarrow> (analysis', current_module))
             else (analysis, current_module)))"

fun parse_loop :: "str list \<Rightarrow> analysis \<times> str option \<Rightarrow> analysis \<times> str option" where
  "parse_loop [] st = st"
| "parse_loop (raw # lines) st = parse_loop lines (parse_line raw st)"

definition parse_lines :: "str list \<Rightarrow> analysis" where
  "parse_lines lines = fst (parse_loop lines ([], None))"


section \<open>Floating-point numbers\<close>

text \<open>
  A Python \<^verbatim>\<open>float\<close> is an IEEE 754 binary64 number: a finite one is a rational
  \<open>m * 2 ^ e\<close> with \<open>\<bar>m\<bar> < 2 ^ 53\<close> and \<open>- 1074 \<le> e\<close>. Every arithmetic operation
  returns the exact result rounded to the nearest such number, ties to the even
  significand. The values of this program lie between 0 and 100, so overflow to infinity
  is outside the model, and no operation here yields a negative zero.
\<close>

definition round_half_even :: "rat \<Rightarrow> int" where
  "round_half_even x =
     (let n = \<lfloor>x\<rfloor>; r = x - of_int n in
      if r < 1 / 2 then n else if 1 / 2 < r then n + 1 else if even n then n else n + 1)"

text \<open>For \<open>0 < x\<close>, the exponent \<open>k\<close> with \<open>2 ^ k \<le> x < 2 ^ (k + 1)\<close>.\<close>

definition ilog2 :: "rat \<Rightarrow> int" where
  "ilog2 x = (if 1 \<le> x then bitlen \<lfloor>x\<rfloor> - 1 else - bitlen (\<lceil>1 / x\<rceil> - 1))"

definition fl :: "rat \<Rightarrow> rat" where
  "fl x =
     (if x = 0 then 0
      else (let e = max (ilog2 \<bar>x\<bar> - 52) (- 1074) in
            sgn x * of_int (round_half_even (\<bar>x\<bar> / 2 powi e)) * 2 powi e))"

text \<open>\<^verbatim>\<open>a / b\<close> on two ints is the correctly rounded quotient.\<close>

definition true_div :: "nat \<Rightarrow> nat \<Rightarrow> py_error + rat" where
  "true_div a b = (if b = 0 then Inl ZeroDivisionError else Inr (fl (of_nat a / of_nat b)))"

definition float_mul :: "rat \<Rightarrow> rat \<Rightarrow> rat" where
  "float_mul x y = fl (x * y)"

definition float_sub :: "rat \<Rightarrow> rat \<Rightarrow> rat" where
  "float_sub x y = fl (x - y)"

section \<open>Formatting numbers\<close>

definition digit_char :: "nat \<Rightarrow> nat" where
  "digit_char d = 48 + d"

text \<open>\<^verbatim>\<open>f"{n}"\<close> for an int that is not negative.\<close>

fun str_nat :: "nat \<Rightarrow> str" where
  "str_nat n = (if n < 10 then [digit_char n] else str_nat (n div 10) @ [digit_char (n mod 10)])"

declare str_nat.simps [simp del]

text \<open>
  \<^verbatim>\<open>f"{x:.2f}"\<close>: the decimal with two fractional digits nearest to the exact value
  of \<open>x\<close>, ties to the even last digit.
\<close>

definition format_2f :: "rat \<Rightarrow> str" where
  "format_2f x =
     (let n = nat (round_half_even (\<bar>x\<bar> * 100)) in
      (if x < 0 then lit ''-'' else []) @ str_nat (n div 100) @ lit ''.'' @
      [digit_char (n div 10 mod 10), digit_char (n mod 10)])"

section \<open>generate_statistics\<close>

type_synonym counts = "(str, nat) dict"

definition initial_counts :: counts where
  "initial_counts =
     [(lit ''E'', 0), (lit ''W'', 0), (lit ''C'', 0), (lit ''R'', 0), (lit ''F'', 0), (lit ''I'', 0)]"

text \<open>The body of the inner loop, for one tuple of a module's list.\<close>

definition count_one :: "counts \<Rightarrow> diagnostic \<Rightarrow> py_error + counts" where
  "count_one pylint_counts d =
     (case d of (_, error_type, _) \<Rightarrow>
        if dict_contains pylint_counts error_type then
          (case dict_get pylint_counts error_type of
             Inl e \<Rightarrow> Inl e
           | Inr n \<Rightarrow> Inr (dict_set error_type (n + 1) pylint_counts))
        else Inr pylint_counts)"

fun count_module :: "diagnostic list \<Rightarrow> counts \<Rightarrow> py_error + counts" where
  "count_module [] pylint_counts = Inr pylint_counts"
| "count_module (d # ds) pylint_counts =
     (case count_one pylint_counts d of
        Inl e \<Rightarrow> Inl e
      | Inr pylint_counts' \<Rightarrow> count_module ds pylint_counts')"

fun count_all :: "diagnostic list list \<Rightarrow> counts \<Rightarrow> py_error + counts" where
  "count_all [] pylint_counts = Inr pylint_counts"
| "count_all (module_errors # rest) pylint_counts =
     (case count_module module_errors pylint_counts of
        Inl e \<Rightarrow> Inl e
      | Inr pylint_counts' \<Rightarrow> count_all rest pylint_counts')"

text \<open>The local variables of \<^verbatim>\<open>generate_statistics\<close> before the text is built.\<close>

record statistics =
  pylint_counts :: counts
  total_issues :: nat
  left_sum :: nat
  false_positive_rate :: rat

definition rate :: "nat \<Rightarrow> nat \<Rightarrow> py_error + rat" where
  "rate critical issues =
     (if critical = 0 then Inr 0
      else (case true_div critical issues of
              Inl e \<Rightarrow> Inl e
            | Inr q \<Rightarrow> Inr (float_sub 100 (float_mul q 100))))"

definition compute_statistics :: "analysis \<Rightarrow> py_error + statistics" where
  "compute_statistics analysis =
     (case count_all (dict_values analysis) initial_counts of Inl e \<Rightarrow> Inl e | Inr cs \<Rightarrow>
     (let issues = sum_list (dict_values cs) in
      case dict_get cs (lit ''F'') of Inl e \<Rightarrow> Inl e | Inr f \<Rightarrow>
     (case dict_get cs (lit ''E'') of Inl e \<Rightarrow> Inl e | Inr e \<Rightarrow>
     (let critical = f + e in
      case rate critical issues of Inl e \<Rightarrow> Inl e | Inr r \<Rightarrow>
        Inr \<lparr>pylint_counts = cs, total_issues = issues, left_sum = critical,
             false_positive_rate = r\<rparr>))))"

definition count_line :: "string \<Rightarrow> counts \<Rightarrow> string \<Rightarrow> py_error + str" where
  "count_line label cs key =
     (case dict_get cs (lit key) of
        Inl e \<Rightarrow> Inl e
      | Inr n \<Rightarrow> Inr (lit label @ lit '': '' @ str_nat n @ [LF]))"

definition rate_line :: "rat \<Rightarrow> str" where
  "rate_line r = lit ''Estimated False Positive Rate: '' @ format_2f r @ lit ''%'' @ [LF]"

definition format_statistics :: "statistics \<Rightarrow> py_error + str" where
  "format_statistics s =
     (let cs = pylint_counts s in
      case count_line ''Errors'' cs ''E'' of Inl e \<Rightarrow> Inl e | Inr l1 \<Rightarrow>
     (case count_line ''Warnings'' cs ''W'' of Inl e \<Rightarrow> Inl e | Inr l2 \<Rightarrow>
     (case count_line ''Conventions'' cs ''C'' of Inl e \<Rightarrow> Inl e | Inr l3 \<Rightarrow>
     (case count_line ''Refactors'' cs ''R'' of Inl e \<Rightarrow> Inl e | Inr l4 \<Rightarrow>
     (case count_line ''Fatals'' cs ''F'' of Inl e \<Rightarrow> Inl e | Inr l5 \<Rightarrow>
     (case count_line ''Informations'' cs ''I'' of Inl e \<Rightarrow> Inl e | Inr l6 \<Rightarrow>
        Inr (lit ''Total Issues: '' @ str_nat (total_issues s) @ [LF] @
             l1 @ l2 @ l3 @ l4 @ l5 @ l6 @ rate_line (false_positive_rate s))))))))"

definition generate_statistics :: "analysis \<Rightarrow> py_error + str" where
  "generate_statistics analysis =
     (case compute_statistics analysis of Inl e \<Rightarrow> Inl e | Inr s \<Rightarrow> format_statistics s)"

section \<open>write_to_file\<close>

text \<open>What the two \<^verbatim>\<open>if\<close> statements write for one tuple.\<close>

definition write_error :: "diagnostic \<Rightarrow> str" where
  "write_error error =
     (case error of (_, error_type, full_error) \<Rightarrow>
        (if error_type = lit ''E'' then lit ''Error: '' @ full_error @ [LF] else []) @
        (if error_type = lit ''F'' then lit ''Fatal: '' @ full_error @ [LF] else []))"

fun write_errors :: "diagnostic list \<Rightarrow> str" where
  "write_errors [] = []"
| "write_errors (error # errors) = write_error error @ write_errors errors"

fun write_modules :: "diagnostic list list \<Rightarrow> str" where
  "write_modules [] = []"
| "write_modules (errors # rest) = write_errors errors @ write_modules rest"

text \<open>The content of the file after \<^verbatim>\<open>write_to_file\<close>.\<close>

definition write_to_file :: "analysis \<Rightarrow> str \<Rightarrow> str" where
  "write_to_file analysis statistics =
     lit ''Potential Bugs:'' @ [LF] @ write_modules (dict_values analysis) @
     [LF] @ lit ''Statistics:'' @ [LF] @ statistics"

section \<open>The script\<close>

definition run_lines :: "str list \<Rightarrow> py_error + str" where
  "run_lines lines =
     (let analysis = parse_lines lines in
      case generate_statistics analysis of
        Inl e \<Rightarrow> Inl e
      | Inr statistics \<Rightarrow> Inr (write_to_file analysis statistics))"


section \<open>Notions of the specification\<close>

text \<open>
  The words of the specification, each in terms of the functions above: a section marker
  is a line whose trimmed content starts with the marker, its label is what the parser
  stores as \<^verbatim>\<open>current_module\<close>.
\<close>

definition section_marker :: "str \<Rightarrow> bool" where
  "section_marker raw \<longleftrightarrow> startswith (strip raw) marker"

definition label_of :: "str \<Rightarrow> str" where
  "label_of raw = drop (length marker) (strip raw)"

text \<open>Fewer than four colon-delimited segments, or a fourth segment that trims to nothing.\<close>

definition malformed :: "str \<Rightarrow> bool" where
  "malformed raw \<longleftrightarrow>
     length (split colon (strip raw)) < 4 \<or> strip (split colon (strip raw) ! 3) = []"


definition category :: "diagnostic \<Rightarrow> str" where
  "category d = fst (snd d)"

definition raw_text :: "diagnostic \<Rightarrow> str" where
  "raw_text d = snd (snd d)"

text \<open>All diagnostics of a report: units in insertion order, each unit's in sequence order.\<close>

definition all_diagnostics :: "analysis \<Rightarrow> diagnostic list" where
  "all_diagnostics a = concat (dict_values a)"

definition recognized :: "str list" where
  "recognized = [lit ''E'', lit ''W'', lit ''C'', lit ''R'', lit ''F'', lit ''I'']"

text \<open>The number of diagnostics of one category.\<close>

definition tally :: "diagnostic list \<Rightarrow> str \<Rightarrow> nat" where
  "tally ds k = length (filter (\<lambda>d. category d = k) ds)"

definition add_tally :: "diagnostic list \<Rightarrow> counts \<Rightarrow> counts" where
  "add_tally ds cs = map (\<lambda>p. (fst p, snd p + tally ds (fst p))) cs"

definition counted :: "analysis \<Rightarrow> counts" where
  "counted a = add_tally (all_diagnostics a) initial_counts"

text \<open>The rate as a function of the report, with the division already known to succeed.\<close>

definition the_rate :: "analysis \<Rightarrow> rat" where
  "the_rate a =
     (let c = tally (all_diagnostics a) (lit ''F'') + tally (all_diagnostics a) (lit ''E'');
          t = length (filter (\<lambda>d. category d \<in> set recognized) (all_diagnostics a))
      in if c = 0 then 0 else float_sub 100 (float_mul (fl (of_nat c / of_nat t)) 100))"


text \<open>The diagnostics listed under the header, and the line written for one of them.\<close>

definition listed :: "diagnostic \<Rightarrow> bool" where
  "listed d \<longleftrightarrow> category d = lit ''E'' \<or> category d = lit ''F''"

definition bug_line :: "diagnostic \<Rightarrow> str" where
  "bug_line d =
     (if category d = lit ''E'' then lit ''Error: '' else lit ''Fatal: '') @ raw_text d @ [LF]"

section \<open>Example inputs\<close>


definition scenario_report :: analysis where
  "scenario_report =
     [(lit ''foo'',
       [(lit ''foo.py'', lit ''E'', lit ''foo.py:1:0: E0001: syntax error (syntax-error)''),
        (lit ''foo.py'', lit ''W'', lit ''foo.py:2:0: W0611: unused import (unused-import)'')])]"

definition scenario_statistics :: statistics where
  "scenario_statistics =
     \<lparr>pylint_counts =
        [(lit ''E'', 1), (lit ''W'', 1), (lit ''C'', 0), (lit ''R'', 0), (lit ''F'', 0),
         (lit ''I'', 0)],
      total_issues = 2, left_sum = 1, false_positive_rate = 50\<rparr>"




text \<open>Two units; the second holds a fatal message and one of an unknown category.\<close>

definition mixed_report :: analysis where
  "mixed_report =
     [(lit ''foo'',
       [(lit ''foo.py'', lit ''E'', lit ''foo.py:1:0: E0001: syntax error''),
        (lit ''foo.py'', lit ''W'', lit ''foo.py:2:0: W0611: unused import'')]),
      (lit ''bar'',
       [(lit ''bar.py'', lit ''F'', lit ''bar.py:1:0: F0002: crash''),
        (lit ''bar.py'', lit ''X'', lit ''bar.py:2:0: X9999: strange'')])]"


section \<open>Lemmas\<close>

subsection \<open>Dictionaries\<close>

lemma map_of_dict_set: "map_of (dict_set k v d) = (map_of d)(k \<mapsto> v)"
  by (induction d) (auto simp: fun_eq_iff)

lemma dict_get_dict_set:
  "dict_get (dict_set k v d) k' = (if k' = k then Inr v else dict_get d k')"
  by (simp add: dict_get_def map_of_dict_set)





lemma size_dict_set_empty:
  "length (concat (dict_values (dict_set k [] d))) \<le> length (concat (dict_values d))"
  by (induction d) (auto simp: dict_values_def)

subsection \<open>Trimming\<close>

lemma rstrip_last: "rstrip s \<noteq> [] \<Longrightarrow> \<not> isspace (last (rstrip s))"
  unfolding rstrip_def
  by (metis hd_dropWhile last_rev rev_is_Nil_conv)

lemma strip_last: "strip s \<noteq> [] \<Longrightarrow> \<not> isspace (last (strip s))"
  unfolding strip_def by (rule rstrip_last)

lemma length_marker: "length marker = 21"
  by (simp add: marker_def lit_def)

lemma isspace_last_marker: "isspace (last marker)"
  by (simp add: marker_def lit_def isspace_def)

lemma marker_label_nonempty:
  assumes "startswith (strip raw) marker"
  shows "drop (length marker) (strip raw) \<noteq> []"
proof
  assume "drop (length marker) (strip raw) = []"
  then have "length (strip raw) \<le> length marker" by simp
  then have "take (length marker) (strip raw) = strip raw" by simp
  with assms have eq: "strip raw = marker"
    by (simp add: startswith_def)
  have "marker \<noteq> []" using length_marker by auto
  with eq strip_last [of raw] isspace_last_marker show False by metis
qed

lemma marker_label_last:
  assumes "startswith (strip raw) marker"
  shows "\<not> isspace (last (drop (length marker) (strip raw)))"
proof -
  have ne: "drop (length marker) (strip raw) \<noteq> []"
    using assms by (rule marker_label_nonempty)
  then have "strip raw \<noteq> []" by auto
  then have "\<not> isspace (last (strip raw))" by (rule strip_last)
  moreover have "last (drop (length marker) (strip raw)) = last (strip raw)"
    using ne by simp
  ultimately show ?thesis by simp
qed

subsection \<open>One line\<close>

lemma parse_line_marker:
  "startswith (strip raw) marker \<Longrightarrow>
   parse_line raw (a, cur) =
     (dict_set (drop (length marker) (strip raw)) [] a, Some (drop (length marker) (strip raw)))"
  by (simp add: parse_line_def Let_def)

lemma make_diagnostic_malformed:
  "length (split colon line) < 4 \<or> strip (split colon line ! 3) = [] \<Longrightarrow>
   make_diagnostic line = Inl IndexError"
  by (auto simp: make_diagnostic_def getitem_def Let_def)


lemma parse_line_malformed:
  assumes "\<not> startswith (strip raw) marker"
    and "make_diagnostic (strip raw) = Inl e"
  shows "parse_line raw st = st"
  using assms by (cases st) (auto simp: parse_line_def try_append_def Let_def split: option.splits)

lemma parse_loop_append: "parse_loop (xs @ ys) st = parse_loop ys (parse_loop xs st)"
  by (induction xs arbitrary: st) auto

subsection \<open>The loop over the lines\<close>

lemma label_nonempty: "section_marker raw \<Longrightarrow> label_of raw \<noteq> []"
  unfolding section_marker_def label_of_def by (rule marker_label_nonempty)

lemma label_last: "section_marker raw \<Longrightarrow> \<not> isspace (last (label_of raw))"
  unfolding section_marker_def label_of_def by (rule marker_label_last)

lemma parse_line_section:
  "section_marker raw \<Longrightarrow> parse_line raw (a, cur) = (dict_set (label_of raw) [] a, Some (label_of raw))"
  by (simp add: section_marker_def label_of_def parse_line_marker)

lemma parse_line_no_unit:
  "\<not> section_marker raw \<Longrightarrow> parse_line raw (a, None) = (a, None)"
  by (simp add: section_marker_def parse_line_def Let_def)











lemma parse_loop_no_marker:
  "\<forall>raw \<in> set lines. \<not> section_marker raw \<Longrightarrow> parse_loop lines (a, None) = (a, None)"
  by (induction lines) (auto simp: parse_line_no_unit)

subsection \<open>Rounding to an integer\<close>






subsection \<open>The binary exponent\<close>



subsection \<open>Rounding to a double\<close>





lemma fl_0: "fl 0 = 0"
  by (simp add: fl_def)



text \<open>The double nearest to one tenth, as every IEEE 754 implementation has it.\<close>

lemma fl_tenth: "fl (1 / 10) = 3602879701896397 / 36028797018963968"
  by code_simp

subsection \<open>Counting\<close>

lemma tally_Nil: "tally [] k = 0"
  by (simp add: tally_def)

lemma tally_Cons: "tally (d # ds) k = (if category d = k then 1 else 0) + tally ds k"
  by (simp add: tally_def)

lemma tally_append: "tally (xs @ ys) k = tally xs k + tally ys k"
  by (simp add: tally_def)

lemma add_tally_Nil: "add_tally [] cs = cs"
  by (simp add: add_tally_def tally_Nil)

lemma keys_add_tally: "map fst (add_tally ds cs) = map fst cs"
  by (simp add: add_tally_def comp_def)

lemma add_tally_append: "add_tally ys (add_tally xs cs) = add_tally (xs @ ys) cs"
  by (simp add: add_tally_def tally_append comp_def)

lemma dict_set_increment:
  assumes "distinct (map fst cs)" and "map_of cs k = Some (n::nat)"
  shows "dict_set k (n + 1) cs = map (\<lambda>p. (fst p, snd p + (if fst p = k then 1 else 0))) cs"
  using assms
proof (induction cs)
  case Nil
  then show ?case by simp
next
  case (Cons p cs)
  show ?case
  proof (cases "fst p = k")
    case True
    with Cons.prems have "k \<notin> fst ` set cs" by auto
    then have "map (\<lambda>p. (fst p, snd p + (if fst p = k then 1 else 0))) cs = cs"
      by (induction cs) auto
    with True Cons.prems show ?thesis by (cases p) auto
  next
    case False
    with Cons show ?thesis by (cases p) auto
  qed
qed

lemma count_one_eq:
  assumes "distinct (map fst cs)"
  shows "count_one cs d = Inr (add_tally [d] cs)"
proof (cases "category d \<in> fst ` set cs")
  case True
  then obtain n where n: "map_of cs (category d) = Some n"
    by (metis domD dom_map_of_conv_image_fst)
  have "dict_set (category d) (n + 1) cs = add_tally [d] cs"
    unfolding add_tally_def tally_Cons tally_Nil
    using dict_set_increment [OF assms n] by (simp cong: map_cong)
  with True n show ?thesis
    by (cases d) (simp add: count_one_def dict_contains_def dict_get_def category_def)
next
  case False
  then have "add_tally [d] cs = cs"
    unfolding add_tally_def tally_Cons tally_Nil by (induction cs) auto
  with False show ?thesis
    by (cases d) (simp add: count_one_def dict_contains_def category_def)
qed

lemma count_module_eq:
  "distinct (map fst cs) \<Longrightarrow> count_module ds cs = Inr (add_tally ds cs)"
proof (induction ds arbitrary: cs)
  case Nil
  then show ?case by (simp add: add_tally_Nil)
next
  case (Cons d ds)
  have "distinct (map fst (add_tally [d] cs))"
    using Cons.prems by (simp only: keys_add_tally)
  then have "count_module ds (add_tally [d] cs) = Inr (add_tally ds (add_tally [d] cs))"
    by (rule Cons.IH)
  then show ?case
    using Cons.prems by (simp add: count_one_eq add_tally_append)
qed

lemma count_all_eq:
  "distinct (map fst cs) \<Longrightarrow> count_all dss cs = Inr (add_tally (concat dss) cs)"
proof (induction dss arbitrary: cs)
  case Nil
  then show ?case by (simp add: add_tally_Nil)
next
  case (Cons ds dss)
  have "distinct (map fst (add_tally ds cs))"
    using Cons.prems by (simp only: keys_add_tally)
  then have "count_all dss (add_tally ds cs) = Inr (add_tally (concat dss) (add_tally ds cs))"
    by (rule Cons.IH)
  then show ?case
    using Cons.prems by (simp add: count_module_eq add_tally_append)
qed

lemma keys_initial_counts: "map fst initial_counts = recognized"
  by (simp add: initial_counts_def recognized_def)

lemma distinct_recognized: "distinct recognized"
  by (simp add: recognized_def lit_def)

lemma sum_list_indicator:
  "distinct ks \<Longrightarrow> (\<Sum>k\<leftarrow>ks. if c = k then 1 else 0) = (if c \<in> set ks then 1 else (0::nat))"
  by (induction ks) auto

lemma sum_tally:
  assumes "distinct ks"
  shows "(\<Sum>k\<leftarrow>ks. tally ds k) = length (filter (\<lambda>d. category d \<in> set ks) ds)"
proof (induction ds)
  case Nil
  then show ?case by (simp add: tally_Nil)
next
  case (Cons d ds)
  have "(\<Sum>k\<leftarrow>ks. tally (d # ds) k)
      = (\<Sum>k\<leftarrow>ks. if category d = k then 1 else 0) + (\<Sum>k\<leftarrow>ks. tally ds k)"
    by (simp only: tally_Cons sum_list_addf)
  with Cons show ?case
    by (simp add: sum_list_indicator [OF assms])
qed

lemma count_all_initial: "count_all (dict_values a) initial_counts = Inr (counted a)"
  unfolding counted_def all_diagnostics_def
  by (rule count_all_eq) (simp only: keys_initial_counts distinct_recognized)

lemma counted_explicit:
  "counted a =
     [(lit ''E'', tally (all_diagnostics a) (lit ''E'')),
      (lit ''W'', tally (all_diagnostics a) (lit ''W'')),
      (lit ''C'', tally (all_diagnostics a) (lit ''C'')),
      (lit ''R'', tally (all_diagnostics a) (lit ''R'')),
      (lit ''F'', tally (all_diagnostics a) (lit ''F'')),
      (lit ''I'', tally (all_diagnostics a) (lit ''I''))]"
  by (simp add: counted_def add_tally_def initial_counts_def)

lemma dict_get_counted:
  "k \<in> set recognized \<Longrightarrow> dict_get (counted a) k = Inr (tally (all_diagnostics a) k)"
  by (auto simp: counted_explicit recognized_def dict_get_def lit_def)

lemma sum_counted:
  "sum_list (dict_values (counted a))
     = length (filter (\<lambda>d. category d \<in> set recognized) (all_diagnostics a))"
proof -
  have "dict_values (counted a) = map (tally (all_diagnostics a)) recognized"
    by (simp add: counted_explicit dict_values_def recognized_def)
  then show ?thesis
    by (simp add: sum_tally [OF distinct_recognized])
qed

lemma critical_le_total:
  "tally (all_diagnostics a) (lit ''F'') + tally (all_diagnostics a) (lit ''E'')
     \<le> sum_list (dict_values (counted a))"
  by (simp add: counted_explicit dict_values_def)

lemma rate_total:
  assumes "c \<le> t"
  shows "rate c t =
    Inr (if c = 0 then 0 else float_sub 100 (float_mul (fl (of_nat c / of_nat t)) 100))"
  using assms by (auto simp: rate_def true_div_def)

lemma compute_statistics_eq:
  "compute_statistics a = Inr
     \<lparr>pylint_counts = counted a,
      total_issues = length (filter (\<lambda>d. category d \<in> set recognized) (all_diagnostics a)),
      left_sum = tally (all_diagnostics a) (lit ''F'') + tally (all_diagnostics a) (lit ''E''),
      false_positive_rate = the_rate a\<rparr>"
proof -
  have F: "dict_get (counted a) (lit ''F'') = Inr (tally (all_diagnostics a) (lit ''F''))"
    by (rule dict_get_counted) (simp add: recognized_def)
  have E: "dict_get (counted a) (lit ''E'') = Inr (tally (all_diagnostics a) (lit ''E''))"
    by (rule dict_get_counted) (simp add: recognized_def)
  have le: "tally (all_diagnostics a) (lit ''F'') + tally (all_diagnostics a) (lit ''E'')
     \<le> length (filter (\<lambda>d. category d \<in> set recognized) (all_diagnostics a))"
    using critical_le_total [of a] by (simp only: sum_counted)
  show ?thesis
    unfolding compute_statistics_def count_all_initial
    by (simp only: sum.case Let_def F E sum_counted rate_total [OF le] the_rate_def)
qed

subsection \<open>The rate\<close>




subsection \<open>Decimal text\<close>




subsection \<open>The text of the statistics\<close>

lemma count_line_counted:
  "k \<in> set [''E'', ''W'', ''C'', ''R'', ''F'', ''I''] \<Longrightarrow>
   count_line label (counted a) k =
     Inr (lit label @ lit '': '' @ str_nat (tally (all_diagnostics a) (lit k)) @ [LF])"
  unfolding count_line_def
  by (subst dict_get_counted) (auto simp: recognized_def)

lemma generate_statistics_eq:
  "generate_statistics a = Inr
     (lit ''Total Issues: '' @
        str_nat (length (filter (\<lambda>d. category d \<in> set recognized) (all_diagnostics a))) @ [LF] @
      (lit ''Errors'' @ lit '': '' @ str_nat (tally (all_diagnostics a) (lit ''E'')) @ [LF]) @
      (lit ''Warnings'' @ lit '': '' @ str_nat (tally (all_diagnostics a) (lit ''W'')) @ [LF]) @
      (lit ''Conventions'' @ lit '': '' @ str_nat (tally (all_diagnostics a) (lit ''C'')) @ [LF]) @
      (lit ''Refactors'' @ lit '': '' @ str_nat (tally (all_diagnostics a) (lit ''R'')) @ [LF]) @
      (lit ''Fatals'' @ lit '': '' @ str_nat (tally (all_diagnostics a) (lit ''F'')) @ [LF]) @
      (lit ''Informations'' @ lit '': '' @ str_nat (tally (all_diagnostics a) (lit ''I'')) @ [LF]) @
      rate_line (the_rate a))"
  unfolding generate_statistics_def compute_statistics_eq format_statistics_def
  by (simp add: count_line_counted Let_def)

subsection \<open>The text of the report\<close>

lemma write_error_eq: "write_error d = (if listed d then bug_line d else [])"
  by (cases d) (auto simp: write_error_def listed_def bug_line_def category_def raw_text_def lit_def)

lemma write_errors_eq: "write_errors ds = concat (map bug_line (filter listed ds))"
  by (induction ds) (simp_all add: write_error_eq)

lemma write_modules_eq: "write_modules dss = concat (map bug_line (filter listed (concat dss)))"
  by (induction dss) (simp_all add: write_errors_eq)

subsection \<open>The example inputs\<close>

lemma half_rate: "float_sub 100 (float_mul (fl (1 / 2)) 100) = 50"
  by code_simp


lemma stats_scenario: "compute_statistics scenario_report = Inr scenario_statistics"
  by (simp add: lit_def dict_get_def dict_contains_def dict_values_def initial_counts_def
        count_one_def rate_def true_div_def compute_statistics_def Let_def scenario_report_def
        scenario_statistics_def half_rate)




section \<open>The claims\<close>

subsection \<open>The parser\<close>

text \<open>
  C2. A line with fewer than four colon-delimited segments, or whose fourth segment is
  empty after trimming, adds no diagnostic to the report, whatever the state: the number of
  stored diagnostics does not grow. When the line is not itself a section marker, building
  the tuple raises IndexError, the handler absorbs it, the state
  \<^verbatim>\<open>(analysis, current_module)\<close> is unchanged, and the loop goes on as if the line
  were not in the input.
\<close>

theorem malformed_line_skipped:
  assumes "malformed raw"
  shows "length (concat (dict_values (fst (parse_line raw (a, cur)))))
           \<le> length (concat (dict_values a))
       \<and> (\<not> section_marker raw \<longrightarrow>
            make_diagnostic (strip raw) = Inl IndexError
          \<and> parse_line raw (a, cur) = (a, cur)
          \<and> parse_loop (pre @ raw # post) st = parse_loop (pre @ post) st)"
proof -
  have err: "make_diagnostic (strip raw) = Inl IndexError"
    using assms by (simp add: malformed_def make_diagnostic_malformed)
  have skip: "parse_line raw s = s" if "\<not> section_marker raw" for s
    using that err by (simp add: section_marker_def parse_line_malformed)
  have "length (concat (dict_values (fst (parse_line raw (a, cur)))))
           \<le> length (concat (dict_values a))"
  proof (cases "section_marker raw")
    case True
    then show ?thesis by (simp add: parse_line_section size_dict_set_empty)
  next
    case False
    then show ?thesis by (simp add: skip)
  qed
  then show ?thesis using err skip by (simp add: parse_loop_append)
qed

theorem malformed_line_skipped_witness:
  "malformed (lit ''foo.py:broken'')
   \<and> \<not> section_marker (lit ''foo.py:broken'')
   \<and> parse_line (lit ''foo.py:broken'') ([(lit ''foo'', [])], Some (lit ''foo''))
       = ([(lit ''foo'', [])], Some (lit ''foo''))
   \<and> parse_loop [lit ''************* Module foo'', lit ''foo.py:broken'',
                  lit ''foo.py:1:0: E0001: x''] ([], None)
       = parse_loop [lit ''************* Module foo'', lit ''foo.py:1:0: E0001: x''] ([], None)"
proof -
  have m: "malformed (lit ''foo.py:broken'')"
    by (simp add: lit_def LF_def colon_def isspace_def lstrip_def rstrip_def strip_def
          startswith_def marker_def malformed_def)
  have n: "\<not> section_marker (lit ''foo.py:broken'')"
    by (simp add: lit_def LF_def colon_def isspace_def lstrip_def rstrip_def strip_def
          startswith_def marker_def section_marker_def)
  from malformed_line_skipped [OF m, where a = "[(lit ''foo'', [])]" and cur = "Some (lit ''foo'')"
      and pre = "[lit ''************* Module foo'']" and post = "[lit ''foo.py:1:0: E0001: x'']"
      and st = "([], None)"] m n
  show ?thesis by simp
qed



text \<open>
  C6, as the code has it. The label is cut from the trimmed line and is not trimmed again:
  two blanks after \<^verbatim>\<open>Module\<close> give a label that starts with a blank.
\<close>

theorem marker_label_counterexample:
  "section_marker (lit ''************* Module  foo'')
   \<and> snd (parse_line (lit ''************* Module  foo'') ([], None)) = Some (lit '' foo'')
   \<and> isspace (hd (lit '' foo''))
   \<and> strip (lit '' foo'') \<noteq> lit '' foo''"
  by (simp add: lit_def LF_def colon_def isspace_def lstrip_def rstrip_def strip_def
        startswith_def marker_def getitem_def dict_get_def make_diagnostic_def try_append_def
        parse_line_def parse_lines_def Let_def section_marker_def)

text \<open>
  C6, amended. A line whose trimmed content starts with the marker opens a unit: its label
  is the rest of the trimmed line after the marker, the report maps the label to the empty
  list, and the label becomes the current unit. The label is not empty and does not end
  with whitespace; it may begin with whitespace.
\<close>

theorem marker_opens_unit:
  assumes "section_marker raw"
  shows "parse_line raw (a, cur) = (dict_set (label_of raw) [] a, Some (label_of raw))
       \<and> label_of raw = drop (length marker) (strip raw)
       \<and> dict_get (fst (parse_line raw (a, cur))) (label_of raw) = Inr []
       \<and> label_of raw \<noteq> []
       \<and> \<not> isspace (last (label_of raw))"
  using assms label_nonempty [OF assms] label_last [OF assms]
  by (simp add: parse_line_section dict_get_dict_set) (simp add: label_of_def)

theorem marker_opens_unit_witness:
  "section_marker (lit ''************* Module foo'')
   \<and> parse_line (lit ''************* Module foo'')
        ([(lit ''bar'', []), (lit ''foo'', [(lit ''foo.py'', lit ''E'', lit ''foo.py:1:0: E0001: x'')])],
         Some (lit ''bar''))
       = ([(lit ''bar'', []), (lit ''foo'', [])], Some (lit ''foo''))"
proof -
  have m: "section_marker (lit ''************* Module foo'')"
    by (simp add: lit_def LF_def colon_def isspace_def lstrip_def rstrip_def strip_def
          startswith_def marker_def section_marker_def)
  have l: "label_of (lit ''************* Module foo'') = lit ''foo''"
    by (simp add: lit_def LF_def colon_def isspace_def lstrip_def rstrip_def strip_def
          startswith_def marker_def label_of_def)
  have d: "lit ''bar'' \<noteq> lit ''foo''"
    by (simp add: lit_def)
  from marker_opens_unit [OF m,
      where a = "[(lit ''bar'', []), (lit ''foo'', [(lit ''foo.py'', lit ''E'', lit ''foo.py:1:0: E0001: x'')])]"
      and cur = "Some (lit ''bar'')"]
  have "parse_line (lit ''************* Module foo'')
        ([(lit ''bar'', []), (lit ''foo'', [(lit ''foo.py'', lit ''E'', lit ''foo.py:1:0: E0001: x'')])],
         Some (lit ''bar''))
       = (dict_set (label_of (lit ''************* Module foo'')) []
            [(lit ''bar'', []), (lit ''foo'', [(lit ''foo.py'', lit ''E'', lit ''foo.py:1:0: E0001: x'')])],
          Some (label_of (lit ''************* Module foo'')))"
    by (rule conjunct1)
  then show ?thesis using m d unfolding l by simp
qed

text \<open>
  C7. When no line of the input is a section marker, the report is empty, the statistics
  are the initial counts with \<open>total_issues = 0\<close> and \<open>false_positive_rate = 0\<close>, and in
  the text written the header of the bugs is followed at once by the blank line and the
  header of the statistics.
\<close>

theorem no_marker_empty_report:
  assumes "\<forall>raw \<in> set lines. \<not> section_marker raw"
  shows "parse_lines lines = []
       \<and> parse_lines (lines @ rest) = parse_lines rest
       \<and> compute_statistics (parse_lines lines)
           = Inr \<lparr>pylint_counts = initial_counts, total_issues = 0, left_sum = 0,
                  false_positive_rate = 0\<rparr>
       \<and> run_lines lines = Inr
           (lit ''Potential Bugs:'' @ [LF] @
            [LF] @ lit ''Statistics:'' @ [LF] @
            lit ''Total Issues: 0'' @ [LF] @ lit ''Errors: 0'' @ [LF] @
            lit ''Warnings: 0'' @ [LF] @ lit ''Conventions: 0'' @ [LF] @
            lit ''Refactors: 0'' @ [LF] @ lit ''Fatals: 0'' @ [LF] @
            lit ''Informations: 0'' @ [LF] @
            lit ''Estimated False Positive Rate: 0.00%'' @ [LF])"
proof -
  have p: "parse_lines lines = []"
    using assms by (simp add: parse_lines_def parse_loop_no_marker)
  have q: "parse_lines (lines @ rest) = parse_lines rest"
    using assms by (simp add: parse_lines_def parse_loop_append parse_loop_no_marker)
  have c: "compute_statistics [] = Inr \<lparr>pylint_counts = initial_counts, total_issues = 0,
      left_sum = 0, false_positive_rate = 0\<rparr>"
    by (simp add: lit_def dict_get_def dict_contains_def dict_values_def initial_counts_def
          count_one_def rate_def true_div_def compute_statistics_def Let_def)
  have r: "run_lines [] = Inr
           (lit ''Potential Bugs:'' @ [LF] @
            [LF] @ lit ''Statistics:'' @ [LF] @
            lit ''Total Issues: 0'' @ [LF] @ lit ''Errors: 0'' @ [LF] @
            lit ''Warnings: 0'' @ [LF] @ lit ''Conventions: 0'' @ [LF] @
            lit ''Refactors: 0'' @ [LF] @ lit ''Fatals: 0'' @ [LF] @
            lit ''Informations: 0'' @ [LF] @
            lit ''Estimated False Positive Rate: 0.00%'' @ [LF])"
    by (simp add: run_lines_def parse_lines_def write_to_file_def lit_def dict_get_def
          dict_contains_def dict_values_def initial_counts_def count_one_def rate_def
          true_div_def compute_statistics_def Let_def LF_def count_line_def rate_line_def
          format_statistics_def generate_statistics_def digit_char_def str_nat.simps
          format_2f_def round_half_even_def)
  have "parse_lines [] = []" by (simp add: parse_lines_def)
  then have "run_lines lines = run_lines []"
    using p by (simp add: run_lines_def)
  then show ?thesis
    using p q c r by (simp only:)
qed

theorem no_marker_empty_report_witness:
  "\<not> section_marker (lit ''foo.py:1:0: E0001: syntax error'')
   \<and> \<not> section_marker (lit '' '')
   \<and> parse_lines [lit ''foo.py:1:0: E0001: syntax error'', lit '' ''] = []
   \<and> parse_lines ([lit ''foo.py:1:0: E0001: syntax error'', lit '' ''] @
                    [lit ''************* Module foo''])
       = parse_lines [lit ''************* Module foo'']
   \<and> run_lines [lit ''foo.py:1:0: E0001: syntax error'', lit '' ''] = Inr
        (lit ''Potential Bugs:'' @ [LF] @
         [LF] @ lit ''Statistics:'' @ [LF] @
         lit ''Total Issues: 0'' @ [LF] @ lit ''Errors: 0'' @ [LF] @
         lit ''Warnings: 0'' @ [LF] @ lit ''Conventions: 0'' @ [LF] @
         lit ''Refactors: 0'' @ [LF] @ lit ''Fatals: 0'' @ [LF] @
         lit ''Informations: 0'' @ [LF] @
         lit ''Estimated False Positive Rate: 0.00%'' @ [LF])"
proof -
  have h: "\<forall>raw \<in> set [lit ''foo.py:1:0: E0001: syntax error'', lit '' '']. \<not> section_marker raw"
    by (simp add: lit_def LF_def colon_def isspace_def lstrip_def rstrip_def strip_def
          startswith_def marker_def section_marker_def)
  from no_marker_empty_report [OF h, where rest = "[lit ''************* Module foo'']"] h
  show ?thesis by (simp del: append.simps)
qed

subsection \<open>The statistics\<close>

text \<open>
  C4. \<^verbatim>\<open>generate_statistics\<close> raises nothing while it counts; \<open>total_issues\<close> is the
  number of diagnostics of the report whose category is one of E, W, C, R, F, I, and is the
  sum of the six counts; the count of each of the six codes is the number of diagnostics of
  that category; a diagnostic of any other category leaves the counts as they are.
\<close>

theorem total_issues_counts_recognized:
  "\<exists>s. compute_statistics a = Inr s
     \<and> total_issues s = length (filter (\<lambda>d. category d \<in> set recognized) (all_diagnostics a))
     \<and> total_issues s = sum_list (dict_values (pylint_counts s))
     \<and> map fst (pylint_counts s) = recognized
     \<and> (\<forall>k \<in> set recognized. dict_get (pylint_counts s) k = Inr (tally (all_diagnostics a) k))
     \<and> (\<forall>d. category d \<notin> set recognized \<longrightarrow> count_one (pylint_counts s) d = Inr (pylint_counts s))"
proof -
  have keys: "map fst (counted a) = recognized"
    by (simp add: counted_def keys_add_tally keys_initial_counts)
  have "count_one (counted a) d = Inr (counted a)" if "category d \<notin> set recognized" for d
    using that keys by (cases d) (simp add: count_one_def dict_contains_def category_def)
  then show ?thesis
    using keys by (simp add: compute_statistics_eq sum_counted dict_get_counted)
qed

theorem total_issues_counts_recognized_witness:
  "\<exists>s. compute_statistics mixed_report = Inr s
     \<and> total_issues s = 3
     \<and> length (all_diagnostics mixed_report) = 4
     \<and> dict_get (pylint_counts s) (lit ''F'') = Inr 1
     \<and> category (lit ''bar.py'', lit ''X'', lit ''bar.py:2:0: X9999: strange'') \<notin> set recognized
     \<and> count_one (pylint_counts s) (lit ''bar.py'', lit ''X'', lit ''bar.py:2:0: X9999: strange'')
         = Inr (pylint_counts s)"
proof -
  obtain s where s: "compute_statistics mixed_report = Inr s"
    and t: "total_issues s
      = length (filter (\<lambda>d. category d \<in> set recognized) (all_diagnostics mixed_report))"
    and k: "\<forall>k \<in> set recognized.
      dict_get (pylint_counts s) k = Inr (tally (all_diagnostics mixed_report) k)"
    and o: "\<forall>d. category d \<notin> set recognized \<longrightarrow>
      count_one (pylint_counts s) d = Inr (pylint_counts s)"
    using total_issues_counts_recognized [of mixed_report] by auto
  have "lit ''F'' \<in> set recognized" by (simp add: recognized_def)
  with k have "dict_get (pylint_counts s) (lit ''F'')
      = Inr (tally (all_diagnostics mixed_report) (lit ''F''))" by (rule bspec)
  moreover have "tally (all_diagnostics mixed_report) (lit ''F'') = 1"
    by (simp add: lit_def all_diagnostics_def dict_values_def category_def recognized_def
          tally_def mixed_report_def)
  moreover have "length (filter (\<lambda>d. category d \<in> set recognized) (all_diagnostics mixed_report)) = 3"
    by (simp add: lit_def all_diagnostics_def dict_values_def category_def recognized_def
          tally_def mixed_report_def)
  moreover have "length (all_diagnostics mixed_report) = 4"
    by (simp add: lit_def all_diagnostics_def dict_values_def category_def recognized_def
          tally_def mixed_report_def)
  moreover have x: "category (lit ''bar.py'', lit ''X'', lit ''bar.py:2:0: X9999: strange'')
      \<notin> set recognized"
    by (simp add: lit_def category_def recognized_def)
  moreover from o x have "count_one (pylint_counts s)
      (lit ''bar.py'', lit ''X'', lit ''bar.py:2:0: X9999: strange'') = Inr (pylint_counts s)"
    by blast
  ultimately show ?thesis using s t by auto
qed

text \<open>
  C9. The sum of the Fatal and Error counts is a summand of \<open>total_issues\<close>, hence at
  most \<open>total_issues\<close>: when it is positive so is \<open>total_issues\<close>, the division returns
  a value, and \<^verbatim>\<open>generate_statistics\<close> never raises ZeroDivisionError.
\<close>

theorem division_never_by_zero:
  "\<exists>s. compute_statistics a = Inr s
     \<and> total_issues s = left_sum s + tally (all_diagnostics a) (lit ''W'')
         + tally (all_diagnostics a) (lit ''C'') + tally (all_diagnostics a) (lit ''R'')
         + tally (all_diagnostics a) (lit ''I'')
     \<and> left_sum s \<le> total_issues s
     \<and> (0 < left_sum s \<longrightarrow> 0 < total_issues s
          \<and> true_div (left_sum s) (total_issues s) \<noteq> Inl ZeroDivisionError)
     \<and> generate_statistics a \<noteq> Inl ZeroDivisionError"
proof -
  have "sum_list (dict_values (counted a))
      = tally (all_diagnostics a) (lit ''F'') + tally (all_diagnostics a) (lit ''E'')
         + tally (all_diagnostics a) (lit ''W'')
         + tally (all_diagnostics a) (lit ''C'') + tally (all_diagnostics a) (lit ''R'')
         + tally (all_diagnostics a) (lit ''I'')"
    by (simp add: counted_explicit dict_values_def)
  then show ?thesis
    unfolding compute_statistics_eq generate_statistics_eq
    by (auto simp: sum_counted true_div_def)
qed

theorem division_never_by_zero_witness:
  "compute_statistics scenario_report = Inr scenario_statistics
   \<and> 0 < left_sum scenario_statistics
   \<and> 0 < total_issues scenario_statistics
   \<and> true_div (left_sum scenario_statistics) (total_issues scenario_statistics)
       \<noteq> Inl ZeroDivisionError"
proof -
  obtain s where s: "compute_statistics scenario_report = Inr s"
    and d: "0 < left_sum s \<longrightarrow> 0 < total_issues s
          \<and> true_div (left_sum s) (total_issues s) \<noteq> Inl ZeroDivisionError"
    using division_never_by_zero [of scenario_report] by auto
  from s have e: "s = scenario_statistics" by (simp add: stats_scenario)
  have "0 < left_sum scenario_statistics" by (simp add: scenario_statistics_def)
  with d show ?thesis unfolding e by (simp add: stats_scenario)
qed






subsection \<open>The report\<close>

text \<open>
  C5. The text written is the header line, then one line for each diagnostic of category
  E or F, units in the report's insertion order and diagnostics in sequence order, then the
  blank line, the header of the statistics and the statistics. A line is
  \<^verbatim>\<open>Error: \<close> or \<^verbatim>\<open>Fatal: \<close> followed by the raw text; a diagnostic of another
  category gives no line.
\<close>

theorem potential_bugs_section:
  "write_to_file a statistics =
     lit ''Potential Bugs:'' @ [LF] @
     concat (map bug_line (filter listed (all_diagnostics a))) @
     [LF] @ lit ''Statistics:'' @ [LF] @ statistics"
  by (simp add: write_to_file_def write_modules_eq all_diagnostics_def)

theorem potential_bugs_section_witness:
  "write_to_file mixed_report (lit ''S'') =
     lit ''Potential Bugs:'' @ [LF] @
     lit ''Error: foo.py:1:0: E0001: syntax error'' @ [LF] @
     lit ''Fatal: bar.py:1:0: F0002: crash'' @ [LF] @
     [LF] @ lit ''Statistics:'' @ [LF] @ lit ''S''"
  unfolding potential_bugs_section
  by (simp add: lit_def LF_def listed_def bug_line_def all_diagnostics_def category_def
        raw_text_def dict_values_def mixed_report_def)

subsection \<open>The script\<close>



end
